theory Spec2Isabelle
  imports Main
begin

section \<open>JavaScript strings\<close>

text \<open>
  A JavaScript string is a sequence of UTF-16 code units. The model covers the strings
  whose code units are all below 256 (ASCII and the Latin-1 supplement): one
  \<^typ>\<open>char\<close> per code unit, so \<^const>\<open>length\<close> is the \<open>.length\<close> of the source.
  The platform functions below (\<open>toLowerCase\<close>, \<open>trim\<close>, \<open>split\<close>, \<open>startsWith\<close>,
  \<open>endsWith\<close>, \<open>parseInt\<close>) follow ECMAScript on that range.
\<close>

definition toLowerChar :: "char \<Rightarrow> char" where
  "toLowerChar c =
     (let n = (of_char c :: nat)
      in if (65 \<le> n \<and> n \<le> 90) \<or> (192 \<le> n \<and> n \<le> 222 \<and> n \<noteq> 215)
         then char_of (n + 32) else c)"

definition toLowerCase :: "string \<Rightarrow> string" where
  "toLowerCase s = map toLowerChar s"

text \<open>The class \<open>\s\<close> of a regular expression, which is also what \<open>trim\<close> removes:
  TAB, LF, VT, FF, CR, SPACE and NO-BREAK SPACE are its members below 256.\<close>

definition isSpace :: "char \<Rightarrow> bool" where
  "isSpace c = ((of_char c :: nat) \<in> {9, 10, 11, 12, 13, 32, 160})"

definition trim :: "string \<Rightarrow> string" where
  "trim s = rev (dropWhile isSpace (rev (dropWhile isSpace s)))"

definition startsWith :: "string \<Rightarrow> string \<Rightarrow> bool" where
  "startsWith s t = (take (length t) s = t)"

definition endsWith :: "string \<Rightarrow> string \<Rightarrow> bool" where
  "endsWith s t = (length t \<le> length s \<and> drop (length s - length t) s = t)"

text \<open>Every \<open>split\<close> of the source yields at least one piece; a character that is not
  part of a separator is put in front of the first piece of what follows.\<close>

fun consHead :: "char \<Rightarrow> string list \<Rightarrow> string list" where
  "consHead c [] = [[c]]"
| "consHead c (w # ws) = (c # w) # ws"

text \<open>\<open>s.split(d)\<close> for a separator \<open>d\<close> of one character.\<close>

fun splitChar :: "char \<Rightarrow> string \<Rightarrow> string list" where
  "splitChar d [] = [[]]"
| "splitChar d (c # cs) =
     (if c = d then [] # splitChar d cs else consHead c (splitChar d cs))"

definition isDigit :: "char \<Rightarrow> bool" where
  "isDigit c = (48 \<le> (of_char c :: nat) \<and> (of_char c :: nat) \<le> 57)"

definition digitVal :: "char \<Rightarrow> nat" where
  "digitVal c = (of_char c :: nat) - 48"

definition decimalValue :: "string \<Rightarrow> nat" where
  "decimalValue ds = foldl (\<lambda>acc c. 10 * acc + digitVal c) 0 ds"

text \<open>\<open>parseInt(s, 10)\<close>: leading white space is skipped, one sign is read, then the
  longest run of decimal digits; without a digit the result is \<open>NaN\<close>, here \<open>None\<close>.
  Every comparison with \<open>NaN\<close> is false.\<close>

definition parseInt :: "string \<Rightarrow> int option" where
  "parseInt s =
     (let t = dropWhile isSpace s;
          neg = (case t of [] \<Rightarrow> False | c # _ \<Rightarrow> c = CHR ''-'');
          u = (case t of [] \<Rightarrow> [] | c # r \<Rightarrow> if c = CHR ''-'' \<or> c = CHR ''+'' then r else t);
          ds = takeWhile isDigit u
      in if ds = [] then None
         else Some (if neg then - int (decimalValue ds) else int (decimalValue ds)))"

section \<open>\<open>net.isIP\<close>\<close>

text \<open>
  \<open>isIP\<close> is imported from \<open>node:net\<close>. It answers 4 for a dotted-decimal IPv4
  address, 6 for an IPv6 address and 0 otherwise. Node decides both with the patterns
  of \<open>lib/internal/net.js\<close>; the definitions below follow those patterns.
  An IPv4 segment is \<open>25[0-5]|2[0-4]\d|1\d\d|[1-9]\d|\d\<close>: one to three digits,
  no leading zero, value at most 255.
\<close>

definition v4Seg :: "string \<Rightarrow> bool" where
  "v4Seg s =
     (s \<noteq> [] \<and> length s \<le> 3 \<and> list_all isDigit s
      \<and> (1 < length s \<longrightarrow> hd s \<noteq> CHR ''0'') \<and> decimalValue s \<le> 255)"

definition isIPv4 :: "string \<Rightarrow> bool" where
  "isIPv4 s = (let ps = splitChar CHR ''.'' s in length ps = 4 \<and> list_all v4Seg ps)"

definition isHexDigit :: "char \<Rightarrow> bool" where
  "isHexDigit c =
     (let n = (of_char c :: nat)
      in (48 \<le> n \<and> n \<le> 57) \<or> (65 \<le> n \<and> n \<le> 70) \<or> (97 \<le> n \<and> n \<le> 102))"

definition v6Seg :: "string \<Rightarrow> bool" where
  "v6Seg s = (1 \<le> length s \<and> length s \<le> 4 \<and> list_all isHexDigit s)"

text \<open>The zone suffix \<open>%[0-9a-zA-Z-.:]{1,}\<close>.\<close>

definition isZoneChar :: "char \<Rightarrow> bool" where
  "isZoneChar c =
     (let n = (of_char c :: nat)
      in (48 \<le> n \<and> n \<le> 57) \<or> (65 \<le> n \<and> n \<le> 90) \<or> (97 \<le> n \<and> n \<le> 122)
         \<or> c = CHR ''-'' \<or> c = CHR ''.'' \<or> c = CHR '':'')"

text \<open>The first occurrence of \<open>::\<close> cuts an address in the groups before and after it.\<close>

fun cutDoubleColon :: "string \<Rightarrow> (string \<times> string) option" where
  "cutDoubleColon [] = None"
| "cutDoubleColon [c] = None"
| "cutDoubleColon (c # d # cs) =
     (if c = CHR '':'' \<and> d = CHR '':'' then Some ([], cs)
      else (case cutDoubleColon (d # cs) of
              None \<Rightarrow> None
            | Some (l, r) \<Rightarrow> Some (c # l, r)))"

text \<open>The groups of a colon-separated part; the empty part has no group.\<close>

definition colonGroups :: "string \<Rightarrow> string list" where
  "colonGroups s = (if s = [] then [] else splitChar CHR '':'' s)"

text \<open>
  The alternatives of the IPv6 pattern, read together: without \<open>::\<close> there are eight
  groups, or six groups and a dotted IPv4 tail; with \<open>::\<close> there are \<open>k\<close> groups
  before it and either up to \<open>7 - k\<close> groups after it, or up to \<open>5 - k\<close> groups
  and a dotted IPv4 tail.
\<close>

definition v6Address :: "string \<Rightarrow> bool" where
  "v6Address a =
     (case cutDoubleColon a of
        None \<Rightarrow>
          (let gs = splitChar CHR '':'' a
           in (length gs = 8 \<and> list_all v6Seg gs)
              \<or> (length gs = 7 \<and> list_all v6Seg (butlast gs) \<and> isIPv4 (last gs)))
      | Some (l, r) \<Rightarrow>
          (let ls = colonGroups l; rs = colonGroups r
           in list_all v6Seg ls
              \<and> ((list_all v6Seg rs \<and> length ls + length rs \<le> 7)
                 \<or> (rs \<noteq> [] \<and> list_all v6Seg (butlast rs) \<and> isIPv4 (last rs)
                    \<and> length ls + length (butlast rs) \<le> 5))))"

definition isIPv6 :: "string \<Rightarrow> bool" where
  "isIPv6 s =
     (case splitChar CHR ''%'' s of
        [a] \<Rightarrow> v6Address a
      | a # z # zs \<Rightarrow>
          v6Address a \<and> drop (Suc (length a)) s \<noteq> []
          \<and> list_all isZoneChar (drop (Suc (length a)) s)
      | [] \<Rightarrow> False)"

definition isIP :: "string \<Rightarrow> nat" where
  "isIP s = (if isIPv4 s then 4 else if isIPv6 s then 6 else 0)"

section \<open>Address guard\<close>

text \<open>
  \<open>isPrivateHostname\<close>: the exact names and the \<open>.local\<close> suffix first; then, for an
  IP literal, the three string prefixes and the test of the octets for 172.16.0.0/12.
  \<open>octets[0] === 172\<close> and the two comparisons of \<open>octets[1]\<close> are false on \<open>NaN\<close>.
\<close>

definition octetIs :: "int option \<Rightarrow> int \<Rightarrow> bool" where
  "octetIs x n = (case x of None \<Rightarrow> False | Some v \<Rightarrow> v = n)"

definition octetBetween :: "int option \<Rightarrow> int \<Rightarrow> int \<Rightarrow> bool" where
  "octetBetween x lo hi = (case x of None \<Rightarrow> False | Some v \<Rightarrow> lo \<le> v \<and> v \<le> hi)"

definition isPrivateHostname :: "string \<Rightarrow> bool" where
  "isPrivateHostname host =
     (let lower = toLowerCase host
      in if lower = ''localhost'' \<or> lower = ''127.0.0.1'' \<or> lower = ''0.0.0.0''
            \<or> lower = ''::1'' \<or> endsWith lower ''.local''
         then True
         else if isIP lower \<noteq> 0 then
           (if startsWith lower ''10.'' then True
            else if startsWith lower ''127.'' then True
            else if startsWith lower ''192.168.'' then True
            else
              (let octets = map parseInt (splitChar CHR ''.'' lower)
               in case octets of
                    [a, b, c, d] \<Rightarrow> octetIs a 172 \<and> octetBetween b 16 31
                  | _ \<Rightarrow> False))
         else False)"

section \<open>Robots policy\<close>

text \<open>\<open>body.split(/\r?\n/)\<close>: a line feed, with the carriage return in front of it
  when there is one, ends a line.\<close>

fun splitLines :: "string \<Rightarrow> string list" where
  "splitLines [] = [[]]"
| "splitLines [c] = (if c = CHR 0x0A then [[], []] else [[c]])"
| "splitLines (c # d # cs) =
     (if c = CHR 0x0A then [] # splitLines (d # cs)
      else if c = CHR 0x0D \<and> d = CHR 0x0A then [] # splitLines cs
      else consHead c (splitLines (d # cs)))"

text \<open>\<open>l.replace(/#.*/, "")\<close>: the first \<open>#\<close> and what follows it up to a line
  terminator are removed (\<open>.\<close> does not match a line terminator).\<close>

definition isLineTerminator :: "char \<Rightarrow> bool" where
  "isLineTerminator c = (c = CHR 0x0A \<or> c = CHR 0x0D)"

definition stripComment :: "string \<Rightarrow> string" where
  "stripComment l =
     takeWhile (\<lambda>c. c \<noteq> CHR ''#'') l @
     (case dropWhile (\<lambda>c. c \<noteq> CHR ''#'') l of
        [] \<Rightarrow> []
      | h # r \<Rightarrow> dropWhile (\<lambda>c. \<not> isLineTerminator c) r)"

definition robotsLines :: "string \<Rightarrow> string list" where
  "robotsLines body =
     filter (\<lambda>l. l \<noteq> []) (map (\<lambda>l. trim (stripComment l)) (splitLines body))"

datatype rule_type = Allow | Disallow

record rule =
  rule_type :: rule_type
  rule_path :: string

record group =
  agents :: "string list"
  rules :: "rule list"

text \<open>\<open>rest.join(":")\<close>.\<close>

fun joinColon :: "string list \<Rightarrow> string" where
  "joinColon [] = []"
| "joinColon [x] = x"
| "joinColon (x # y # ys) = x @ '':'' @ joinColon (y # ys)"

text \<open>One turn of the loop over the lines; the state is \<open>groups\<close> and \<open>current\<close>.\<close>

definition parseLine ::
  "group list \<times> group option \<Rightarrow> string \<Rightarrow> group list \<times> group option" where
  "parseLine st line =
     (case splitChar CHR '':'' line of
        [] \<Rightarrow> st
      | rawKey # rest \<Rightarrow>
          if rawKey = [] \<or> rest = [] then st
          else
            (let key = trim (toLowerCase rawKey);
                 val = trim (joinColon rest);
                 groups = fst st;
                 current = snd st
             in if key = ''user-agent'' then
                  ((case current of
                      None \<Rightarrow> groups
                    | Some c \<Rightarrow> if rules c \<noteq> [] then groups @ [c] else groups),
                   Some \<lparr>agents = [toLowerCase val], rules = []\<rparr>)
                else if key = ''allow'' \<or> key = ''disallow'' then
                  (let c = (case current of
                              None \<Rightarrow> \<lparr>agents = [''*''], rules = []\<rparr>
                            | Some c \<Rightarrow> c);
                       r = \<lparr>rule_type = (if key = ''allow'' then Allow else Disallow),
                            rule_path = val\<rparr>
                   in (groups, Some (c\<lparr>rules := rules c @ [r]\<rparr>)))
                else st))"

definition parseRobots :: "string \<Rightarrow> group list" where
  "parseRobots body =
     (let st = foldl parseLine ([], None) (robotsLines body)
      in case snd st of None \<Rightarrow> fst st | Some c \<Rightarrow> fst st @ [c])"

definition applicableGroup :: "group list \<Rightarrow> string \<Rightarrow> group option" where
  "applicableGroup groups ua =
     (case find (\<lambda>g. list_ex (\<lambda>a. a = ua) (agents g)) groups of
        Some g \<Rightarrow> Some g
      | None \<Rightarrow> find (\<lambda>g. list_ex (\<lambda>a. a = ''*'') (agents g)) groups)"

text \<open>One turn of the loop over the rules of the group; \<open>best\<close> holds the type and the
  length of the longest match so far.\<close>

definition bestStep ::
  "string \<Rightarrow> (rule_type \<times> nat) option \<Rightarrow> rule \<Rightarrow> (rule_type \<times> nat) option" where
  "bestStep path best r =
     (if rule_path r = [] then best
      else if startsWith path (rule_path r) then
        (let len = length (rule_path r)
         in case best of
              None \<Rightarrow> Some (rule_type r, len)
            | Some b \<Rightarrow> if snd b < len then Some (rule_type r, len) else best)
      else best)"

definition bestRule :: "rule list \<Rightarrow> string \<Rightarrow> (rule_type \<times> nat) option" where
  "bestRule rs path = foldl (bestStep path) None rs"

definition robotsDecision :: "string \<Rightarrow> string \<Rightarrow> string \<Rightarrow> bool" where
  "robotsDecision body pathname userAgent =
     (let groups = parseRobots body;
          ua = toLowerCase userAgent
      in case applicableGroup groups ua of
           None \<Rightarrow> True
         | Some applicable \<Rightarrow>
             (let path = (if pathname = [] then ''/'' else pathname)
              in case bestRule (rules applicable) path of
                   None \<Rightarrow> True
                 | Some best \<Rightarrow> fst best = Allow))"

text \<open>
  What the network answers is an input of the model. \<open>fetch\<close> rejects on a network
  error, and on the abort that the ten second timer sends; otherwise it resolves to a
  response, whose \<open>text()\<close> may reject in turn.
\<close>

datatype fetch_failure = NetworkError | TimeoutAbort

datatype 'r fetched = Rejected fetch_failure | Resolved 'r

record robots_response =
  robots_ok :: bool
  robots_text :: "string option"

datatype error =
    InvalidURL
  | UnsupportedScheme
  | BlockedAddress
  | RobotsDisallowed
  | FetchError fetch_failure
  | BodyError
  | HttpStatus nat
  | SizeLimit
  | ExtractError

record parsed_url =
  protocol :: string
  hostname :: string
  host :: string
  pathname :: string
  href :: string

definition robotsUrl :: "parsed_url \<Rightarrow> string" where
  "robotsUrl target = protocol target @ ''//'' @ host target @ ''/robots.txt''"

text \<open>The body of the \<open>try\<close> block of \<open>fetchRobotsAllowed\<close>: \<open>Inl\<close> is an exception
  raised inside it.\<close>

definition robotsTry :: "parsed_url \<Rightarrow> string \<Rightarrow> robots_response fetched \<Rightarrow> error + bool" where
  "robotsTry target userAgent answer =
     (case answer of
        Rejected f \<Rightarrow> Inl (FetchError f)
      | Resolved res \<Rightarrow>
          if \<not> robots_ok res then Inr True
          else (case robots_text res of
                  None \<Rightarrow> Inl BodyError
                | Some body \<Rightarrow> Inr (robotsDecision body (pathname target) userAgent)))"

text \<open>\<open>fetchRobotsAllowed\<close>: the \<open>catch\<close> turns every exception into \<open>true\<close>.\<close>

definition fetchRobotsAllowed ::
  "parsed_url \<Rightarrow> string \<Rightarrow> robots_response fetched \<Rightarrow> bool" where
  "fetchRobotsAllowed target userAgent answer =
     (case robotsTry target userAgent answer of Inl e \<Rightarrow> True | Inr b \<Rightarrow> b)"

section \<open>Relevance ranking\<close>

text \<open>\<open>s.split(/\s+/)\<close>: every maximal run of white space is one separator.\<close>

function splitSpaces :: "string \<Rightarrow> string list" where
  "splitSpaces [] = [[]]"
| "splitSpaces (c # cs) =
     (if isSpace c then [] # splitSpaces (dropWhile isSpace cs)
      else consHead c (splitSpaces cs))"
  by pat_completeness auto
termination
  by (relation "measure length") (auto simp: length_dropWhile_le less_Suc_eq_le)

text \<open>\<open>text.split(/\n{2,}/)\<close>: every maximal run of two or more line feeds is one
  separator; a single line feed stays in its piece.\<close>

function splitParagraphs :: "string \<Rightarrow> string list" where
  "splitParagraphs [] = [[]]"
| "splitParagraphs [c] = [[c]]"
| "splitParagraphs (c # d # cs) =
     (if c = CHR 0x0A \<and> d = CHR 0x0A
      then [] # splitParagraphs (dropWhile (\<lambda>x. x = CHR 0x0A) cs)
      else consHead c (splitParagraphs (d # cs)))"
  by pat_completeness auto
termination
  by (relation "measure length") (auto simp: length_dropWhile_le less_Suc_eq_le le_SucI)

text \<open>The class \<open>[a-z0-9\s]\<close>.\<close>

definition isTokenChar :: "char \<Rightarrow> bool" where
  "isTokenChar c =
     (let n = (of_char c :: nat)
      in (97 \<le> n \<and> n \<le> 122) \<or> (48 \<le> n \<and> n \<le> 57) \<or> isSpace c)"

definition tokenize :: "string \<Rightarrow> string list" where
  "tokenize s =
     filter (\<lambda>w. 2 < length w)
       (splitSpaces (map (\<lambda>c. if isTokenChar c then c else CHR '' '') (toLowerCase s)))"

record passage =
  snippet :: string
  score :: nat

text \<open>The \<open>reduce\<close> over the tokens of a paragraph.\<close>

definition paragraphScore :: "string list \<Rightarrow> string \<Rightarrow> nat" where
  "paragraphScore qTokens p =
     foldl (\<lambda>acc w. acc + (if w \<in> set qTokens then 1 else 0)) 0 (tokenize p)"

text \<open>\<open>Array.prototype.sort\<close> is stable, and so is \<^const>\<open>sort_key\<close>; the comparator
  \<open>b.score - a.score\<close> orders by falling score.\<close>

definition relevantPassages :: "string \<Rightarrow> string \<Rightarrow> nat \<Rightarrow> passage list" where
  "relevantPassages text question maxN =
     (let qTokens = tokenize question;
          paras = filter (\<lambda>p. 60 < length p) (map trim (splitParagraphs text));
          scored = filter (\<lambda>ps. 0 < snd ps) (map (\<lambda>p. (p, paragraphScore qTokens p)) paras);
          sorted = sort_key (\<lambda>ps. - int (snd ps)) scored
      in map (\<lambda>ps. \<lparr>snippet = take 600 (fst ps), score = snd ps\<rparr>) (take maxN sorted))"

section \<open>\<open>browse_url\<close>\<close>

text \<open>The result of the tool. The fields have the names of the source, except
  \<open>relevant_passages\<close>, since \<open>relevantPassages\<close> is the function above.\<close>

record heading =
  tag :: string
  heading_text :: string

record link =
  link_href :: string
  link_text :: string
  link_rel :: string
  nofollow :: bool

record page_analysis =
  url :: string
  finalUrl :: string
  title :: "string option"
  description :: "string option"
  publishedAt :: "string option"
  author :: "string option"
  wordCount :: nat
  headings :: "heading list"
  links :: "link list"
  excerpt :: string
  mainText :: string
  relevant_passages :: "passage list"

text \<open>\<open>pageCache\<close>, a \<open>Map\<close> from the URL to \<open>{ at, data }\<close>, and its time to live.\<close>

type_synonym page_cache = "string \<rightharpoonup> (int \<times> page_analysis)"

definition CACHE_TTL_MS :: int where
  "CACHE_TTL_MS = 10 * 60 * 1000"

text \<open>The response of the page fetch: \<open>res.ok\<close>, \<open>res.status\<close>, the
  \<open>content-length\<close> header (\<open>None\<close> when \<open>headers.get\<close> answers \<open>null\<close>),
  \<open>res.text()\<close> (\<open>None\<close> when it rejects) and \<open>res.url\<close>.\<close>

record page_response =
  page_ok :: bool
  page_status :: nat
  content_length :: "string option"
  page_text :: "string option"
  page_url :: string

text \<open>
  What \<open>parseHTML\<close>, \<open>extractMetadata\<close>, \<open>Readability\<close> and the two
  \<open>querySelectorAll\<close> loops obtain from a page. They are calls into linkedom,
  Readability and the URL class, which are not part of the repository, so their outcome
  for a page is an input of the model: either an exception or the pieces below.
  \<open>article_text\<close> is \<open>article?.textContent\<close> and \<open>body_text\<close> is
  \<open>doc.body?.textContent\<close>, \<open>None\<close> when undefined or null.
\<close>

record dom_extract =
  meta_title :: "string option"
  meta_description :: "string option"
  meta_publishedAt :: "string option"
  meta_author :: "string option"
  article_text :: "string option"
  body_text :: "string option"
  dom_headings :: "heading list"
  dom_links :: "link list"

text \<open>The surroundings of one call: the clock, and what the network and the HTML
  libraries answer when they are asked.\<close>

record env =
  now :: int
  robots_answer :: "robots_response fetched"
  page_answer :: "page_response fetched"
  dom_of :: "parsed_url \<Rightarrow> string \<Rightarrow> error + dom_extract"

text \<open>
  \<open>Number(cl)\<close> is \<open>StringToNumber\<close> of ECMAScript. White space at both ends is
  stripped; the empty string is 0; the rest is a \<open>StrNumericLiteral\<close>: a binary, octal
  or hexadecimal integer with its prefix, or a decimal literal with an optional sign,
  which is \<open>Infinity\<close> or digits with an optional fraction and an optional exponent.
  Anything else is \<open>NaN\<close>. The model keeps the mathematical value of the literal, the
  digits \<open>m\<close> and the decimal exponent \<open>e\<close> of \<open>m * 10 ^ e\<close>; the rounding to a
  double is taken into account where the value is compared, in \<open>exceedsLimit\<close>.
\<close>

datatype jsnum = NaN | Infinite bool | Finite bool nat int

definition digitOf :: "char \<Rightarrow> nat" where
  "digitOf c =
     (let n = (of_char c :: nat)
      in if n \<le> 57 then n - 48 else if n \<le> 70 then n - 55 else n - 87)"

definition radixValue :: "nat \<Rightarrow> string \<Rightarrow> nat" where
  "radixValue b ds = foldl (\<lambda>acc c. b * acc + digitOf c) 0 ds"

definition isOctalDigit :: "char \<Rightarrow> bool" where
  "isOctalDigit c = (48 \<le> (of_char c :: nat) \<and> (of_char c :: nat) \<le> 55)"

definition isBinaryDigit :: "char \<Rightarrow> bool" where
  "isBinaryDigit c = (c = CHR ''0'' \<or> c = CHR ''1'')"

text \<open>\<open>NonDecimalIntegerLiteral\<close>: \<open>0x\<close>, \<open>0o\<close> or \<open>0b\<close>, in either case, and at least
  one digit of that radix.\<close>

definition nonDecimal :: "string \<Rightarrow> nat option" where
  "nonDecimal t =
     (case t of
        z # x # ds \<Rightarrow>
          if z = CHR ''0'' \<and> ds \<noteq> [] then
            (if (x = CHR ''x'' \<or> x = CHR ''X'') \<and> list_all isHexDigit ds
               then Some (radixValue 16 ds)
             else if (x = CHR ''o'' \<or> x = CHR ''O'') \<and> list_all isOctalDigit ds
               then Some (radixValue 8 ds)
             else if (x = CHR ''b'' \<or> x = CHR ''B'') \<and> list_all isBinaryDigit ds
               then Some (radixValue 2 ds)
             else None)
          else None
      | _ \<Rightarrow> None)"

text \<open>What follows the digits: nothing, or \<open>e\<close> or \<open>E\<close> and a signed integer. The
  result is the exponent, \<open>None\<close> when the rest is neither.\<close>

definition exponentPart :: "string \<Rightarrow> int option" where
  "exponentPart r =
     (case r of
        [] \<Rightarrow> Some 0
      | c # s \<Rightarrow>
          if c = CHR ''e'' \<or> c = CHR ''E'' then
            (case s of
               [] \<Rightarrow> None
             | d # ds \<Rightarrow>
                 if d = CHR ''+'' then
                   (if ds \<noteq> [] \<and> list_all isDigit ds then Some (int (decimalValue ds)) else None)
                 else if d = CHR ''-'' then
                   (if ds \<noteq> [] \<and> list_all isDigit ds then Some (- int (decimalValue ds)) else None)
                 else if list_all isDigit s then Some (int (decimalValue s))
                 else None)
          else None)"

text \<open>\<open>StrUnsignedDecimalLiteral\<close> other than \<open>Infinity\<close>: digits, a point and digits
  (one of the two runs may be empty, not both), or digits alone; then the exponent.\<close>

definition unsignedDecimal :: "string \<Rightarrow> (nat \<times> int) option" where
  "unsignedDecimal t =
     (let ip = takeWhile isDigit t;
          r = dropWhile isDigit t
      in case r of
           [] \<Rightarrow> if ip = [] then None else Some (decimalValue ip, 0)
         | c # r1 \<Rightarrow>
             if c = CHR ''.'' then
               (let fp = takeWhile isDigit r1;
                    r2 = dropWhile isDigit r1
                in if ip = [] \<and> fp = [] then None
                   else (case exponentPart r2 of
                           None \<Rightarrow> None
                         | Some e \<Rightarrow> Some (decimalValue (ip @ fp), e - int (length fp))))
             else if ip = [] then None
             else (case exponentPart r of
                     None \<Rightarrow> None
                   | Some e \<Rightarrow> Some (decimalValue ip, e)))"

definition Number :: "string \<Rightarrow> jsnum" where
  "Number s =
     (let t = trim s
      in case t of
           [] \<Rightarrow> Finite False 0 0
         | c # r \<Rightarrow>
             (case nonDecimal t of
                Some n \<Rightarrow> Finite False n 0
              | None \<Rightarrow>
                  (let neg = (c = CHR ''-'');
                       u = (if c = CHR ''+'' \<or> c = CHR ''-'' then r else t)
                   in if u = ''Infinity'' then Infinite neg
                      else (case unsignedDecimal u of
                              None \<Rightarrow> NaN
                            | Some me \<Rightarrow> Finite neg (fst me) (snd me)))))"

text \<open>
  \<open>x > 5 * 1024 * 1024\<close> for \<open>x = Number(cl)\<close>. \<open>NaN\<close> compares false. A finite value
  is rounded to the nearest double, ties to even, before it is compared. 5242880 is
  a double with an even significand and its successor is 5242880 + 2^-30, so the
  rounded value is above 5242880 exactly when the value is above 5242880 + 2^-31;
  with the value \<open>m * 10 ^ e\<close> that is the comparison of natural numbers below.
\<close>

definition exceedsLimit :: "jsnum \<Rightarrow> bool" where
  "exceedsLimit x =
     (case x of
        NaN \<Rightarrow> False
      | Infinite neg \<Rightarrow> \<not> neg
      | Finite neg m e \<Rightarrow>
          \<not> neg \<and> (5 * 1024 * 1024 * 2 ^ 31 + 1) * 10 ^ nat (- e) < m * 2 ^ 31 * 10 ^ nat e)"

text \<open>\<open>cl && Number(cl) > 5 * 1024 * 1024\<close>.\<close>

definition declaredTooLarge :: "string option \<Rightarrow> bool" where
  "declaredTooLarge cl =
     (case cl of
        None \<Rightarrow> False
      | Some v \<Rightarrow> v \<noteq> [] \<and> exceedsLimit (Number v))"

text \<open>From \<open>if (!res.ok)\<close> to the second size test: the HTML text, or the error thrown.\<close>

definition readPage :: "page_response \<Rightarrow> error + string" where
  "readPage res =
     (if \<not> page_ok res then Inl (HttpStatus (page_status res))
      else if declaredTooLarge (content_length res) then Inl SizeLimit
      else (case page_text res of
              None \<Rightarrow> Inl BodyError
            | Some html \<Rightarrow> if 5 * 1024 * 1024 < length html then Inl SizeLimit else Inr html))"

text \<open>\<open>article?.textContent || doc.body?.textContent || ""\<close>: the empty string is
  falsy.\<close>

definition mainTextOf :: "dom_extract \<Rightarrow> string" where
  "mainTextOf d =
     (case article_text d of
        Some t \<Rightarrow> if t \<noteq> [] then t
                  else (case body_text d of Some b \<Rightarrow> b | None \<Rightarrow> [])
      | None \<Rightarrow> (case body_text d of Some b \<Rightarrow> b | None \<Rightarrow> []))"

text \<open>\<open>mainText ? mainText.split(/\s+/).length : 0\<close>.\<close>

definition countWords :: "string \<Rightarrow> nat" where
  "countWords t = (if t \<noteq> [] then length (splitSpaces t) else 0)"

definition buildResult ::
  "parsed_url \<Rightarrow> page_response \<Rightarrow> dom_extract \<Rightarrow> string option \<Rightarrow> page_analysis" where
  "buildResult u res d question =
     (let t = mainTextOf d
      in \<lparr>url = href u,
          finalUrl = (if page_url res \<noteq> [] then page_url res else href u),
          title = meta_title d,
          description = meta_description d,
          publishedAt = meta_publishedAt d,
          author = meta_author d,
          wordCount = countWords t,
          headings = dom_headings d,
          links = dom_links d,
          excerpt = take 1000 t,
          mainText = t,
          relevant_passages =
            (case question of
               None \<Rightarrow> []
             | Some q \<Rightarrow> if q \<noteq> [] then relevantPassages t q 10 else [])\<rparr>)"

text \<open>The cache lookup: \<open>cache ? pageCache.get(key) : undefined\<close>, then
  \<open>cached && now - cached.at < CACHE_TTL_MS\<close>.\<close>

definition cacheHit :: "page_cache \<Rightarrow> bool \<Rightarrow> string \<Rightarrow> int \<Rightarrow> page_analysis option" where
  "cacheHit pc cache key t =
     (case (if cache then pc key else None) of
        None \<Rightarrow> None
      | Some cached \<Rightarrow> if t - fst cached < CACHE_TTL_MS then Some (snd cached) else None)"

text \<open>
  \<open>execute\<close>. The argument \<open>input\<close> is \<open>new URL(url)\<close>, \<open>None\<close> when the
  constructor throws. The result is what the call returns or throws, the cache
  afterwards, and the requests sent, in order.
\<close>

definition execute ::
  "env \<Rightarrow> page_cache \<Rightarrow> parsed_url option \<Rightarrow> string option \<Rightarrow> bool
   \<Rightarrow> (error + page_analysis) \<times> page_cache \<times> string list" where
  "execute e pc input question cache =
     (case input of
        None \<Rightarrow> (Inl InvalidURL, pc, [])
      | Some u \<Rightarrow>
          if protocol u \<noteq> ''http:'' \<and> protocol u \<noteq> ''https:'' then (Inl UnsupportedScheme, pc, [])
          else if isPrivateHostname (hostname u) then (Inl BlockedAddress, pc, [])
          else
            (let key = href u
             in case cacheHit pc cache key (now e) of
                  Some d \<Rightarrow> (Inr d, pc, [])
                | None \<Rightarrow>
                    if \<not> fetchRobotsAllowed u ''content-agent'' (robots_answer e)
                    then (Inl RobotsDisallowed, pc, [robotsUrl u])
                    else
                      (case page_answer e of
                         Rejected f \<Rightarrow> (Inl (FetchError f), pc, [robotsUrl u, href u])
                       | Resolved res \<Rightarrow>
                           (case readPage res of
                              Inl err \<Rightarrow> (Inl err, pc, [robotsUrl u, href u])
                            | Inr html \<Rightarrow>
                                (case dom_of e u html of
                                   Inl err \<Rightarrow> (Inl err, pc, [robotsUrl u, href u])
                                 | Inr d \<Rightarrow>
                                     (let result = buildResult u res d question
                                      in (Inr result,
                                          (if cache then pc(key \<mapsto> (now e, result)) else pc),
                                          [robotsUrl u, href u])))))))"

section \<open>Words of the specification\<close>

text \<open>
  The whitespace-delimited tokens of a text, as the specification counts them: the
  maximal runs of characters that are not white space.
\<close>

fun wsTokens :: "string \<Rightarrow> string list" where
  "wsTokens [] = []"
| "wsTokens (c # cs) =
     (if isSpace c then wsTokens cs
      else (case cs of
              [] \<Rightarrow> [[c]]
            | d # ds \<Rightarrow> if isSpace d then [c] # wsTokens cs else consHead c (wsTokens cs)))"

text \<open>
  The winner among the rules of a group, as the specification describes it: of the
  rules with a non-empty path that is a prefix of the target path, the first one whose
  path has the greatest length.
\<close>

definition matchingRules :: "rule list \<Rightarrow> string \<Rightarrow> rule list" where
  "matchingRules rs path = filter (\<lambda>r. rule_path r \<noteq> [] \<and> startsWith path (rule_path r)) rs"

definition longestFirst :: "rule list \<Rightarrow> rule option" where
  "longestFirst ms =
     find (\<lambda>r. length (rule_path r) = fold max (map (\<lambda>r. length (rule_path r)) ms) 0) ms"

text \<open>
  \<open>res.text()\<close> decodes the body as UTF-8. For a text of code units below 256 the
  bytes received are these: one byte for a code unit below 128, two bytes otherwise.
\<close>

definition utf8Char :: "char \<Rightarrow> nat list" where
  "utf8Char c =
     (let n = (of_char c :: nat)
      in if n < 128 then [n] else [192 + n div 64, 128 + n mod 64])"

definition utf8Bytes :: "string \<Rightarrow> nat list" where
  "utf8Bytes s = concat (map utf8Char s)"

text \<open>
  A line of robots.txt from which the parser takes a rule: it has a colon, a non-empty
  key, and the key is \<open>allow\<close> or \<open>disallow\<close>. A body without such a line states
  no policy.
\<close>

definition isRuleLine :: "string \<Rightarrow> bool" where
  "isRuleLine line =
     (case splitChar CHR '':'' line of
        [] \<Rightarrow> False
      | rawKey # rest \<Rightarrow>
          rawKey \<noteq> [] \<and> rest \<noteq> []
          \<and> (trim (toLowerCase rawKey) = ''allow'' \<or> trim (toLowerCase rawKey) = ''disallow''))"

section \<open>Auxiliary notions\<close>

text \<open>The state of the robots parser holds no rule.\<close>

definition noRules :: "group list \<times> group option \<Rightarrow> bool" where
  "noRules st = (list_all (\<lambda>g. rules g = []) (fst st)
                 \<and> (case snd st of None \<Rightarrow> True | Some c \<Rightarrow> rules c = []))"

text \<open>The test of the rule loop, the length it compares, and what it stores.\<close>

definition ruleMatches :: "string \<Rightarrow> rule \<Rightarrow> bool" where
  "ruleMatches path r = (rule_path r \<noteq> [] \<and> startsWith path (rule_path r))"

definition ruleLen :: "rule \<Rightarrow> nat" where
  "ruleLen r = length (rule_path r)"

definition maxLen :: "rule list \<Rightarrow> nat" where
  "maxLen ms = fold max (map ruleLen ms) 0"

definition outcome :: "rule \<Rightarrow> rule_type \<times> nat" where
  "outcome r = (rule_type r, ruleLen r)"

text \<open>Sample inputs: a public URL, a cached analysis of it, a page that is fetched and
  analysed, a page whose fetch ends in status 404, and a robots.txt.\<close>

definition exampleUrl :: parsed_url where
  "exampleUrl = \<lparr>protocol = ''https:'', hostname = ''example.com'', host = ''example.com'',
                  pathname = ''/docs'', href = ''https://example.com/docs''\<rparr>"

definition examplePage :: page_analysis where
  "examplePage = \<lparr>url = ''https://example.com/docs'', finalUrl = ''https://example.com/docs'',
                   title = Some ''Docs'', description = None, publishedAt = None, author = None,
                   wordCount = 2, headings = [], links = [], excerpt = ''old text'',
                   mainText = ''old text'', relevant_passages = []\<rparr>"

definition exampleDom :: dom_extract where
  "exampleDom = \<lparr>meta_title = Some ''Docs'', meta_description = None, meta_publishedAt = None,
                  meta_author = None, article_text = Some ''new text here'', body_text = None,
                  dom_headings = [], dom_links = []\<rparr>"

definition exampleCache :: page_cache where
  "exampleCache = Map.empty(''https://example.com/docs'' \<mapsto> (1000, examplePage))"

definition exampleEnv :: "int \<Rightarrow> env" where
  "exampleEnv t =
     \<lparr>now = t,
      robots_answer = Rejected NetworkError,
      page_answer = Resolved \<lparr>page_ok = True, page_status = 200, content_length = None,
                               page_text = Some ''<p>new text here</p>'', page_url = ''''\<rparr>,
      dom_of = (\<lambda>u html. Inr exampleDom)\<rparr>"

definition failingEnv :: env where
  "failingEnv =
     \<lparr>now = 700000,
      robots_answer = Rejected NetworkError,
      page_answer = Resolved \<lparr>page_ok = False, page_status = 404, content_length = None,
                               page_text = Some '''', page_url = ''''\<rparr>,
      dom_of = (\<lambda>u html. Inl ExtractError)\<rparr>"

definition exampleResponse :: page_response where
  "exampleResponse = \<lparr>page_ok = True, page_status = 200, content_length = None,
                       page_text = Some ''<p>new text here</p>'', page_url = ''''\<rparr>"

definition exampleRobots :: string where
  "exampleRobots = ''User-agent: *\<newline>Disallow: /private\<newline>Allow: /private/public''"

definition robotsAnswer :: "string \<Rightarrow> robots_response fetched" where
  "robotsAnswer body = Resolved \<lparr>robots_ok = True, robots_text = Some body\<rparr>"

section \<open>Properties of the address guard\<close>

lemma toLowerChar_idem: "toLowerChar (toLowerChar c) = toLowerChar c"
  by (auto simp: toLowerChar_def Let_def)

lemma toLowerCase_idem: "toLowerCase (toLowerCase s) = toLowerCase s"
  by (simp add: toLowerCase_def toLowerChar_idem)

lemma splitChar_chars:
  "c \<in> set s \<Longrightarrow> c = d \<or> (\<exists>w \<in> set (splitChar d s). c \<in> set w)"
proof (induction s)
  case Nil
  then show ?case by simp
next
  case (Cons x xs)
  show ?case
  proof (cases "splitChar d xs")
    case Nil
    with Cons show ?thesis by (auto split: if_splits)
  next
    case (Cons w ws)
    with Cons.prems Cons.IH show ?thesis by (auto split: if_splits)
  qed
qed

lemma isIPv4_chars:
  assumes "isIPv4 s" and "c \<in> set s"
  shows "isDigit c \<or> c = CHR ''.''"
proof -
  from assms(2) have "c = CHR ''.'' \<or> (\<exists>w \<in> set (splitChar CHR ''.'' s). c \<in> set w)"
    by (rule splitChar_chars)
  moreover have "\<forall>w \<in> set (splitChar CHR ''.'' s). list_all isDigit w"
    using assms(1) by (auto simp: isIPv4_def Let_def v4Seg_def list_all_iff)
  ultimately show ?thesis by (auto simp: list_all_iff)
qed

lemma toLowerChar_digit: "isDigit c \<or> c = CHR ''.'' \<Longrightarrow> toLowerChar c = c"
  by (auto simp: toLowerChar_def isDigit_def Let_def)

lemma isIPv4_lower: "isIPv4 s \<Longrightarrow> toLowerCase s = s"
  unfolding toLowerCase_def
  by (rule map_idI) (auto dest: isIPv4_chars simp: toLowerChar_digit)

lemma endsWith_set: "endsWith s t \<Longrightarrow> set t \<subseteq> set s"
  unfolding endsWith_def by (metis set_drop_subset)

lemma isIPv4_not_local: "isIPv4 s \<Longrightarrow> \<not> endsWith s ''.local''"
proof
  assume a: "isIPv4 s" and "endsWith s ''.local''"
  then have "CHR ''l'' \<in> set s" using endsWith_set by fastforce
  with a have "isDigit CHR ''l'' \<or> CHR ''l'' = CHR ''.''" by (rule isIPv4_chars)
  then show False by (simp add: isDigit_def)
qed

lemma parseInt_169: "parseInt ''169'' = Some 169"
  by (simp add: parseInt_def isSpace_def isDigit_def decimalValue_def digitVal_def)

text \<open>
  Claim C1, as stated: every IPv4 literal of 169.254.0.0/16 is refused by
  \<open>isPrivateHostname\<close>. It fails: \<open>169.254.1.1\<close> is an IPv4 literal of that block and
  the guard answers \<open>false\<close> for it.
\<close>

theorem link_local_counterexample:
  "isIPv4 ''169.254.1.1'' \<and> startsWith ''169.254.1.1'' ''169.254.''
   \<and> isPrivateHostname ''169.254.1.1'' = False"
  by code_simp

text \<open>
  Claim C1, amended: the guard has no rule for link-local space. For every IPv4
  literal \<open>h\<close> that starts with \<open>169.254.\<close>, \<open>isPrivateHostname h\<close> is \<open>false\<close>, so
  \<open>browse_url\<close> does not stop at the address guard for such a host.
\<close>

theorem link_local_not_blocked:
  assumes v4: "isIPv4 h" and pre: "startsWith h ''169.254.''"
  shows "isPrivateHostname h = False"
proof -
  from pre have "take (length ''169.254.'') h = ''169.254.''"
    unfolding startsWith_def .
  then obtain r where h: "h = ''169.254.'' @ r"
    by (metis append_take_drop_id)
  have low: "toLowerCase h = h" using v4 by (rule isIPv4_lower)
  have nl: "\<not> endsWith h ''.local''" using v4 by (rule isIPv4_not_local)
  have oct: "map parseInt (splitChar CHR ''.'' h)
             = Some 169 # map parseInt (splitChar CHR ''.'' (''254.'' @ r))"
    by (simp add: h parseInt_169)
  show ?thesis
    unfolding isPrivateHostname_def low Let_def oct
    using nl by (auto simp: h startsWith_def octetIs_def split: list.splits)
qed

theorem link_local_not_blocked_witness:
  "isIPv4 ''169.254.169.254'' \<and> startsWith ''169.254.169.254'' ''169.254.''
   \<and> isPrivateHostname ''169.254.169.254'' = False"
proof -
  have a: "isIPv4 ''169.254.169.254''" by code_simp
  have b: "startsWith ''169.254.169.254'' ''169.254.''" by code_simp
  from a b link_local_not_blocked [OF a b] show ?thesis by simp
qed

lemma splitChar_nonempty: "splitChar d s \<noteq> []"
  by (induction s) (auto split: if_splits, case_tac "splitChar d s", auto)

lemma splitChar_first:
  "splitChar d s = w # x # xs \<Longrightarrow> take (Suc (length w)) s = w @ [d]"
proof (induction s arbitrary: w)
  case Nil
  then show ?case by simp
next
  case (Cons c cs)
  show ?case
  proof (cases "c = d")
    case True
    with Cons.prems show ?thesis by simp
  next
    case False
    with Cons.prems obtain w' where sp: "splitChar d cs = w' # x # xs" and w: "w = c # w'"
      by (cases "splitChar d cs") auto
    from Cons.IH [OF sp] w show ?thesis by simp
  qed
qed

lemma takeWhile_digits: "list_all isDigit s \<Longrightarrow> takeWhile isDigit s = s"
  by (simp add: list_all_iff)

lemma digit_not_space: "isDigit c \<Longrightarrow> \<not> isSpace c"
  by (auto simp: isSpace_def isDigit_def)

lemma parseInt_v4Seg: "v4Seg s \<Longrightarrow> parseInt s = Some (int (decimalValue s))"
proof -
  assume a: "v4Seg s"
  then obtain c r where s: "s = c # r" and d: "list_all isDigit s"
    by (cases s) (auto simp: v4Seg_def)
  then have c: "isDigit c" by simp
  then have sg: "\<not> isSpace c" "c \<noteq> CHR ''-''" "c \<noteq> CHR ''+''"
    by (auto simp: digit_not_space isDigit_def)
  have dw: "dropWhile isSpace s = s" using s sg by simp
  have neg: "(case s of [] \<Rightarrow> False | c # x \<Rightarrow> c = CHR ''-'') = False"
    using s sg by simp
  have u: "(case s of [] \<Rightarrow> [] | c # r \<Rightarrow> if c = CHR ''-'' \<or> c = CHR ''+'' then r else s) = s"
    using s sg by simp
  have tw: "takeWhile isDigit s = s" using d by (rule takeWhile_digits)
  show ?thesis
    unfolding parseInt_def Let_def dw neg u tw using s by simp
qed

lemma block_172:
  assumes v4: "isIPv4 h" and sp: "splitChar CHR ''.'' h = [''172'', b, c, d]"
  shows "isPrivateHostname h = (16 \<le> decimalValue b \<and> decimalValue b \<le> 31)"
proof -
  from splitChar_first [OF sp] have "take (Suc (length ''172'')) h = ''172.''" by simp
  then obtain r where "h = ''172.'' @ r" by (metis append_take_drop_id)
  then have h: "h = ''172.'' @ r" by simp
  have low: "toLowerCase h = h" using v4 by (rule isIPv4_lower)
  have nl: "\<not> endsWith h ''.local''" using v4 by (rule isIPv4_not_local)
  have ip: "isIP h \<noteq> 0" using v4 by (simp add: isIP_def)
  from v4 sp have "v4Seg b" by (simp add: isIPv4_def)
  then have pb: "parseInt b = Some (int (decimalValue b))" by (rule parseInt_v4Seg)
  have pa: "parseInt ''172'' = Some 172"
    by (simp add: parseInt_def isSpace_def isDigit_def decimalValue_def digitVal_def)
  have oct: "map parseInt (splitChar CHR ''.'' h)
               = [Some 172, Some (int (decimalValue b)), parseInt c, parseInt d]"
    by (simp add: sp pa pb)
  have pre: "\<not> startsWith h ''10.''" "\<not> startsWith h ''127.''" "\<not> startsWith h ''192.168.''"
    by (simp_all add: h startsWith_def)
  have ex: "h \<noteq> ''localhost''" "h \<noteq> ''127.0.0.1''" "h \<noteq> ''0.0.0.0''" "h \<noteq> ''::1''"
    by (simp_all add: h)
  show ?thesis
    unfolding isPrivateHostname_def low Let_def oct
    using nl ip pre ex by (simp add: octetIs_def octetBetween_def)
qed

text \<open>
  Claim C2: \<open>isPrivateHostname\<close> is true for localhost, 127.0.0.1, 0.0.0.0, ::1,
  foo.local, 10.1.2.3, 172.20.5.5 and 192.168.1.1, and false for 8.8.8.8 and
  example.com. For an IPv4 literal whose four octets begin with 172 the answer is
  whether the second octet lies in 16..31: 172.16.0.0 and 172.31.255.255 are refused,
  172.15.255.255 and 172.32.0.0 are not.
\<close>

theorem guard_examples:
  "isPrivateHostname ''localhost'' \<and> isPrivateHostname ''127.0.0.1''
   \<and> isPrivateHostname ''0.0.0.0'' \<and> isPrivateHostname ''::1''
   \<and> isPrivateHostname ''foo.local'' \<and> isPrivateHostname ''10.1.2.3''
   \<and> isPrivateHostname ''172.20.5.5'' \<and> isPrivateHostname ''192.168.1.1''
   \<and> isPrivateHostname ''8.8.8.8'' = False \<and> isPrivateHostname ''example.com'' = False
   \<and> isPrivateHostname ''172.15.255.255'' = False \<and> isPrivateHostname ''172.16.0.0''
   \<and> isPrivateHostname ''172.31.255.255'' \<and> isPrivateHostname ''172.32.0.0'' = False
   \<and> (isIPv4 h \<and> splitChar CHR ''.'' h = [''172'', b, c, d]
        \<longrightarrow> isPrivateHostname h = (16 \<le> decimalValue b \<and> decimalValue b \<le> 31))"
proof -
  have "isPrivateHostname ''localhost'' \<and> isPrivateHostname ''127.0.0.1''
   \<and> isPrivateHostname ''0.0.0.0'' \<and> isPrivateHostname ''::1''
   \<and> isPrivateHostname ''foo.local'' \<and> isPrivateHostname ''10.1.2.3''
   \<and> isPrivateHostname ''172.20.5.5'' \<and> isPrivateHostname ''192.168.1.1''
   \<and> isPrivateHostname ''8.8.8.8'' = False \<and> isPrivateHostname ''example.com'' = False
   \<and> isPrivateHostname ''172.15.255.255'' = False \<and> isPrivateHostname ''172.16.0.0''
   \<and> isPrivateHostname ''172.31.255.255'' \<and> isPrivateHostname ''172.32.0.0'' = False"
    by code_simp
  with block_172 [of h b c d] show ?thesis by blast
qed

theorem guard_examples_witness:
  "isIPv4 ''172.20.5.5'' \<and> splitChar CHR ''.'' ''172.20.5.5'' = [''172'', ''20'', ''5'', ''5'']
   \<and> decimalValue ''20'' = 20 \<and> isPrivateHostname ''172.20.5.5'' = True"
proof -
  have a: "isIPv4 ''172.20.5.5''" by code_simp
  have b: "splitChar CHR ''.'' ''172.20.5.5'' = [''172'', ''20'', ''5'', ''5'']" by simp
  have c: "decimalValue ''20'' = 20" by (simp add: decimalValue_def digitVal_def)
  from a b c guard_examples [of "''172.20.5.5''" "''20''" "''5''" "''5''"]
  show ?thesis by simp
qed

text \<open>
  Claim C9: the guard does not depend on the case of the host name:
  \<open>isPrivateHostname h\<close> is \<open>isPrivateHostname (toLowerCase h)\<close> for every \<open>h\<close>, and
  \<open>LOCALHOST\<close>, \<open>127.0.0.1\<close> and \<open>Foo.LOCAL\<close> are refused.
\<close>

theorem guard_case_insensitive:
  "isPrivateHostname h = isPrivateHostname (toLowerCase h)
   \<and> isPrivateHostname ''LOCALHOST'' \<and> isPrivateHostname ''127.0.0.1''
   \<and> isPrivateHostname ''Foo.LOCAL''"
proof -
  have "isPrivateHostname h = isPrivateHostname (toLowerCase h)"
    by (simp add: isPrivateHostname_def toLowerCase_idem)
  moreover have "isPrivateHostname ''LOCALHOST''" by code_simp
  moreover have "isPrivateHostname ''127.0.0.1''" by code_simp
  moreover have "isPrivateHostname ''Foo.LOCAL''" by code_simp
  ultimately show ?thesis by simp
qed

section \<open>Properties of the robots policy\<close>

lemma parseLine_noRules:
  "noRules st \<Longrightarrow> \<not> isRuleLine l \<Longrightarrow> noRules (parseLine st l)"
  by (auto simp: noRules_def parseLine_def isRuleLine_def Let_def
           split: list.splits option.splits)

lemma foldl_noRules:
  "noRules st \<Longrightarrow> \<not> list_ex isRuleLine ls \<Longrightarrow> noRules (foldl parseLine st ls)"
  by (induction ls arbitrary: st) (simp_all add: parseLine_noRules)

lemma parseRobots_noRules:
  assumes "\<not> list_ex isRuleLine (robotsLines body)"
  shows "list_all (\<lambda>g. rules g = []) (parseRobots body)"
proof -
  have "noRules ([], None)" by (simp add: noRules_def)
  then have "noRules (foldl parseLine ([], None) (robotsLines body))"
    using assms by (rule foldl_noRules)
  then show ?thesis
    by (auto simp: parseRobots_def noRules_def Let_def split: option.splits)
qed

lemma find_in_set: "find P xs = Some x \<Longrightarrow> x \<in> set xs"
  by (induction xs) (auto split: if_splits)

lemma applicableGroup_in_set: "applicableGroup gs ua = Some g \<Longrightarrow> g \<in> set gs"
  by (auto simp: applicableGroup_def split: option.splits dest: find_in_set)

lemma robotsDecision_noRules:
  assumes "\<not> list_ex isRuleLine (robotsLines body)"
  shows "robotsDecision body p ua"
proof (cases "applicableGroup (parseRobots body) (toLowerCase ua)")
  case None
  then show ?thesis by (simp add: robotsDecision_def)
next
  case (Some g)
  then have "g \<in> set (parseRobots body)" by (rule applicableGroup_in_set)
  with parseRobots_noRules [OF assms] have "rules g = []" by (simp add: list_all_iff)
  with Some show ?thesis by (simp add: robotsDecision_def bestRule_def)
qed

text \<open>
  Claim C4: \<open>fetchRobotsAllowed\<close> never throws and fails open. It answers \<open>true\<close>
  when the fetch rejects on a network error or on the timeout, when the response is not
  ok, when reading the body rejects, and whenever the body of its \<open>try\<close> raises any
  exception; a body in which no line states an allow or disallow rule yields \<open>true\<close>
  for every path and user agent.
\<close>

theorem robots_fail_open:
  "fetchRobotsAllowed target ua (Rejected NetworkError)
   \<and> fetchRobotsAllowed target ua (Rejected TimeoutAbort)
   \<and> fetchRobotsAllowed target ua (Resolved \<lparr>robots_ok = False, robots_text = t\<rparr>)
   \<and> fetchRobotsAllowed target ua (Resolved \<lparr>robots_ok = True, robots_text = None\<rparr>)
   \<and> (\<forall>err. robotsTry target ua answer = Inl err \<longrightarrow> fetchRobotsAllowed target ua answer)
   \<and> (\<not> list_ex isRuleLine (robotsLines body) \<longrightarrow>
        fetchRobotsAllowed target ua (Resolved \<lparr>robots_ok = True, robots_text = Some body\<rparr>))"
  by (simp add: fetchRobotsAllowed_def robotsTry_def robotsDecision_noRules)

theorem robots_fail_open_witness:
  "robotsTry \<lparr>protocol = ''https:'', hostname = ''example.com'', host = ''example.com'',
               pathname = ''/private'', href = ''https://example.com/private''\<rparr>
     ''content-agent'' (Rejected TimeoutAbort) = Inl (FetchError TimeoutAbort)
   \<and> fetchRobotsAllowed \<lparr>protocol = ''https:'', hostname = ''example.com'', host = ''example.com'',
               pathname = ''/private'', href = ''https://example.com/private''\<rparr>
     ''content-agent'' (Rejected TimeoutAbort)
   \<and> \<not> list_ex isRuleLine (robotsLines ''<html>not found</html>\<newline>User-agent: *'')
   \<and> fetchRobotsAllowed \<lparr>protocol = ''https:'', hostname = ''example.com'', host = ''example.com'',
               pathname = ''/private'', href = ''https://example.com/private''\<rparr>
     ''content-agent''
     (Resolved \<lparr>robots_ok = True, robots_text = Some ''<html>not found</html>\<newline>User-agent: *''\<rparr>)"
proof -
  have a: "\<not> list_ex isRuleLine (robotsLines ''<html>not found</html>\<newline>User-agent: *'')"
    by code_simp
  have b: "robotsTry \<lparr>protocol = ''https:'', hostname = ''example.com'', host = ''example.com'',
               pathname = ''/private'', href = ''https://example.com/private''\<rparr>
     ''content-agent'' (Rejected TimeoutAbort) = Inl (FetchError TimeoutAbort)"
    by (simp add: robotsTry_def)
  from a b robots_fail_open [of "\<lparr>protocol = ''https:'', hostname = ''example.com'', host = ''example.com'',
               pathname = ''/private'', href = ''https://example.com/private''\<rparr>" "''content-agent''" _
               "Rejected TimeoutAbort" "''<html>not found</html>\<newline>User-agent: *''"]
  show ?thesis by blast
qed

lemma bestStep_skip: "\<not> ruleMatches path r \<Longrightarrow> bestStep path b r = b"
  by (auto simp: bestStep_def ruleMatches_def)

lemma bestStep_match:
  "ruleMatches path r \<Longrightarrow>
   bestStep path b r =
     (case b of None \<Rightarrow> Some (outcome r)
      | Some x \<Rightarrow> if snd x < ruleLen r then Some (outcome r) else b)"
  by (auto simp: bestStep_def ruleMatches_def outcome_def ruleLen_def Let_def split: option.splits)

lemma foldl_bestStep_filter:
  "foldl (bestStep path) b rs = foldl (bestStep path) b (filter (ruleMatches path) rs)"
  by (induction rs arbitrary: b) (simp_all add: bestStep_skip)

lemma maxLen_snoc: "maxLen (ms @ [r]) = max (ruleLen r) (maxLen ms)"
  by (simp add: maxLen_def)

lemma maxLen_Max: "maxLen ms = Max (set (0 # map ruleLen ms))"
  unfolding maxLen_def by (simp only: Max.set_eq_fold)

lemma maxLen_ge: "r \<in> set ms \<Longrightarrow> ruleLen r \<le> maxLen ms"
  unfolding maxLen_Max by (rule Max_ge) auto

lemma maxLen_attained:
  assumes "ms \<noteq> []" shows "\<exists>r \<in> set ms. ruleLen r = maxLen ms"
proof -
  have "Max (set (0 # map ruleLen ms)) \<in> set (0 # map ruleLen ms)"
    by (rule Max_in) auto
  then have "maxLen ms = 0 \<or> (\<exists>r \<in> set ms. ruleLen r = maxLen ms)"
    unfolding maxLen_Max [symmetric] by auto
  moreover have "\<exists>r \<in> set ms. ruleLen r = maxLen ms" if "maxLen ms = 0"
  proof -
    from assms obtain r where r: "r \<in> set ms" by (cases ms) auto
    with maxLen_ge [OF r] that have "ruleLen r = maxLen ms" by simp
    with r show ?thesis by blast
  qed
  ultimately show ?thesis by blast
qed

lemma find_append:
  "find P (xs @ ys) = (case find P xs of None \<Rightarrow> find P ys | Some x \<Rightarrow> Some x)"
  by (induction xs) auto

lemma find_first_max:
  assumes "ms \<noteq> []"
  shows "\<exists>x. find (\<lambda>r. ruleLen r = maxLen ms) ms = Some x \<and> ruleLen x = maxLen ms"
proof -
  from maxLen_attained [OF assms] obtain r where "r \<in> set ms" "ruleLen r = maxLen ms"
    by blast
  then have "find (\<lambda>r. ruleLen r = maxLen ms) ms \<noteq> None"
    by (auto simp: find_None_iff)
  then obtain x where x: "find (\<lambda>r. ruleLen r = maxLen ms) ms = Some x" by auto
  then have "ruleLen x = maxLen ms" by (auto simp: find_Some_iff)
  with x show ?thesis by blast
qed

lemma longestFirst_alt: "longestFirst ms = find (\<lambda>r. ruleLen r = maxLen ms) ms"
  by (simp add: longestFirst_def maxLen_def ruleLen_def [abs_def])

lemma foldl_bestStep_longest:
  "list_all (ruleMatches path) ms \<Longrightarrow>
   foldl (bestStep path) None ms = map_option outcome (longestFirst ms)"
proof (induction ms rule: rev_induct)
  case Nil
  then show ?case by (simp add: longestFirst_def)
next
  case (snoc r ms)
  then have ih: "foldl (bestStep path) None ms = map_option outcome (longestFirst ms)"
    and m: "ruleMatches path r" by simp_all
  show ?case
  proof (cases "ms = []")
    case True
    then show ?thesis using m
      by (simp add: bestStep_match longestFirst_alt maxLen_def)
  next
    case False
    from find_first_max [OF False] obtain x where
      x: "find (\<lambda>r. ruleLen r = maxLen ms) ms = Some x" "ruleLen x = maxLen ms" by blast
    show ?thesis
    proof (cases "maxLen ms < ruleLen r")
      case True
      then have "find (\<lambda>q. ruleLen q = ruleLen r) ms = None"
        using maxLen_ge by (fastforce simp: find_None_iff)
      with True x ih m show ?thesis
        by (simp add: bestStep_match longestFirst_alt maxLen_snoc find_append max_def outcome_def)
    next
      case False
      with x ih m show ?thesis
        by (simp add: bestStep_match longestFirst_alt maxLen_snoc find_append max_def outcome_def)
    qed
  qed
qed

lemma bestRule_longest:
  "bestRule rs path = map_option outcome (longestFirst (matchingRules rs path))"
proof -
  have eq: "matchingRules rs path = filter (ruleMatches path) rs"
    by (simp add: matchingRules_def ruleMatches_def [abs_def])
  have "list_all (ruleMatches path) (filter (ruleMatches path) rs)"
    by (simp add: list_all_iff)
  then show ?thesis
    unfolding bestRule_def eq
    by (subst foldl_bestStep_filter) (rule foldl_bestStep_longest)
qed

text \<open>
  Claim C5: the rule loop returns the first rule of greatest path length among the
  rules of the group whose path is non-empty and a prefix of the target path. With the
  group \<open>User-agent: *\<close>, \<open>Disallow: /private\<close>, \<open>Allow: /private/public\<close>, the path
  \<open>/private/secret\<close> is disallowed, \<open>/private/public/x\<close> and \<open>/other\<close> are allowed.
  Of two rules with the same path the first one decides, and a rule with an empty path
  is passed over.
\<close>

theorem longest_match_wins:
  "bestRule rs path
     = map_option (\<lambda>r. (rule_type r, length (rule_path r))) (longestFirst (matchingRules rs path))
   \<and> fetchRobotsAllowed (exampleUrl\<lparr>pathname := ''/private/secret''\<rparr>) ''content-agent''
        (robotsAnswer exampleRobots) = False
   \<and> fetchRobotsAllowed (exampleUrl\<lparr>pathname := ''/private/public/x''\<rparr>) ''content-agent''
        (robotsAnswer exampleRobots) = True
   \<and> fetchRobotsAllowed (exampleUrl\<lparr>pathname := ''/other''\<rparr>) ''content-agent''
        (robotsAnswer exampleRobots) = True
   \<and> bestRule [\<lparr>rule_type = Disallow, rule_path = ''/a''\<rparr>,
                \<lparr>rule_type = Allow, rule_path = ''/a''\<rparr>] ''/a/b'' = Some (Disallow, 2)
   \<and> bestRule [\<lparr>rule_type = Disallow, rule_path = ''''\<rparr>] ''/a/b'' = None"
proof -
  have g: "bestRule rs path
     = map_option (\<lambda>r. (rule_type r, length (rule_path r))) (longestFirst (matchingRules rs path))"
    using bestRule_longest [of rs path] by (simp add: outcome_def [abs_def] ruleLen_def)
  have d: "robotsDecision exampleRobots ''/private/secret'' ''content-agent'' = False"
    unfolding exampleRobots_def by code_simp
  have a1: "robotsDecision exampleRobots ''/private/public/x'' ''content-agent'' = True"
    unfolding exampleRobots_def by code_simp
  have a2: "robotsDecision exampleRobots ''/other'' ''content-agent'' = True"
    unfolding exampleRobots_def by code_simp
  have t: "bestRule [\<lparr>rule_type = Disallow, rule_path = ''/a''\<rparr>,
                     \<lparr>rule_type = Allow, rule_path = ''/a''\<rparr>] ''/a/b'' = Some (Disallow, 2)"
    by (simp add: bestRule_def bestStep_def startsWith_def)
  have n: "bestRule [\<lparr>rule_type = Disallow, rule_path = ''''\<rparr>] ''/a/b'' = None"
    by (simp add: bestRule_def bestStep_def)
  from g d a1 a2 t n show ?thesis
    by (simp add: fetchRobotsAllowed_def robotsTry_def robotsAnswer_def)
qed

section \<open>Properties of the ranking and of the word count\<close>

text \<open>
  Claim C3, as stated: on the text of two paragraphs \<open>Para one about caching.\<close> and
  \<open>Para two about routers.\<close> with the query \<open>caching\<close>, \<open>relevantPassages\<close> returns
  exactly one passage. It fails: the result does not have one element.
\<close>

theorem rank_spec_example_counterexample:
  "length (relevantPassages ''Para one about caching.\<newline>\<newline>Para two about routers.''
             ''caching'' 10) \<noteq> 1"
  by code_simp

lemma short_paragraphs_dropped:
  assumes "list_all (\<lambda>p. length p \<le> 60) (map trim (splitParagraphs text))"
  shows "relevantPassages text q n = []"
proof -
  from assms have "filter (\<lambda>p. 60 < length p) (map trim (splitParagraphs text)) = []"
    by (auto simp: list_all_iff filter_empty_conv)
  then show ?thesis by (simp add: relevantPassages_def)
qed

text \<open>
  Claim C3, amended: a text all of whose trimmed paragraphs have at most 60 characters
  yields no passage, whatever the query; so the text of the claim, whose paragraphs
  have 23 characters, yields the empty list. With both paragraphs written out beyond
  60 characters the result is exactly one passage, the first paragraph, with score 1.
\<close>

theorem rank_spec_example:
  "(list_all (\<lambda>p. length p \<le> 60) (map trim (splitParagraphs text))
      \<longrightarrow> relevantPassages text q n = [])
   \<and> relevantPassages ''Para one about caching.\<newline>\<newline>Para two about routers.'' ''caching'' 10 = []
   \<and> relevantPassages
        ''Para one about caching, written out at a length of more than sixty characters.\<newline>\<newline>Para two about routers, written out at a length of more than sixty characters.''
        ''caching'' 10
      = [\<lparr>snippet = ''Para one about caching, written out at a length of more than sixty characters.'',
          score = 1\<rparr>]"
proof -
  have a: "relevantPassages ''Para one about caching.\<newline>\<newline>Para two about routers.'' ''caching'' 10 = []"
    by code_simp
  have b: "relevantPassages
        ''Para one about caching, written out at a length of more than sixty characters.\<newline>\<newline>Para two about routers, written out at a length of more than sixty characters.''
        ''caching'' 10
      = [\<lparr>snippet = ''Para one about caching, written out at a length of more than sixty characters.'',
          score = 1\<rparr>]"
    by code_simp
  from a b short_paragraphs_dropped show ?thesis by blast
qed

theorem rank_spec_example_witness:
  "list_all (\<lambda>p. length p \<le> 60)
     (map trim (splitParagraphs ''Para one about caching.\<newline>\<newline>Para two about routers.''))
   \<and> relevantPassages ''Para one about caching.\<newline>\<newline>Para two about routers.'' ''routers'' 3 = []"
proof -
  have a: "list_all (\<lambda>p. length p \<le> 60)
     (map trim (splitParagraphs ''Para one about caching.\<newline>\<newline>Para two about routers.''))"
    by code_simp
  from a rank_spec_example
         [of "''Para one about caching.\<newline>\<newline>Para two about routers.''" "''routers''" 3]
  show ?thesis by blast
qed

text \<open>The tokens of the specification are the non-empty pieces of the \<open>split\<close>:
  the count of the source is their number plus the number of empty pieces.\<close>

lemma wsTokens_dropWhile: "wsTokens (dropWhile isSpace s) = wsTokens s"
  by (induction s) simp_all

lemma splitSpaces_nonempty: "splitSpaces s \<noteq> []"
  by (induction s rule: splitSpaces.induct) (auto, case_tac "splitSpaces cs", auto)

lemma splitSpaces_head:
  "splitSpaces (c # cs) = w # ws \<Longrightarrow> (w = []) = isSpace c"
  by (cases "splitSpaces cs") (auto split: if_splits)

lemma wsTokens_splitSpaces: "wsTokens s = filter (\<lambda>w. w \<noteq> []) (splitSpaces s)"
proof (induction s rule: splitSpaces.induct)
  case 1
  then show ?case by simp
next
  case (2 c cs)
  show ?case
  proof (cases "isSpace c")
    case True
    with 2 show ?thesis by (simp add: wsTokens_dropWhile)
  next
    case False
    with 2 have ih: "wsTokens cs = filter (\<lambda>w. w \<noteq> []) (splitSpaces cs)" by simp
    obtain w ws where sp: "splitSpaces cs = w # ws"
      using splitSpaces_nonempty [of cs] by (cases "splitSpaces cs") auto
    show ?thesis
    proof (cases cs)
      case Nil
      with False show ?thesis by simp
    next
      case (Cons e es)
      with sp have "(w = []) = isSpace e" using splitSpaces_head by blast
      with False Cons sp ih show ?thesis by (auto split: if_splits)
    qed
  qed
qed

text \<open>
  Claim C8, at the main text \<open>" hello "\<close>: the \<open>wordCount\<close> of the result is 3, while
  the text has one whitespace-delimited token. The pieces that \<open>split\<close> leaves before
  leading and after trailing white space are counted as words.
\<close>

theorem word_count_edges:
  "wordCount (buildResult u res (d\<lparr>article_text := Some '' hello ''\<rparr>) q) = 3
   \<and> length (wsTokens '' hello '') = 1"
proof -
  have "countWords '' hello '' = 3" by code_simp
  moreover have "length (wsTokens '' hello '') = 1" by code_simp
  ultimately show ?thesis by (simp add: buildResult_def mainTextOf_def Let_def)
qed

section \<open>Properties of the page fetch and of the cache\<close>

lemma dropWhile_digits: "list_all isDigit xs \<Longrightarrow> dropWhile isSpace xs = xs"
  by (cases xs) (simp_all add: digit_not_space)

lemma trim_digits: "list_all isDigit cl \<Longrightarrow> trim cl = cl"
proof -
  assume a: "list_all isDigit cl"
  then have "list_all isDigit (rev cl)" by (simp add: list_all_iff)
  then have "dropWhile isSpace (rev cl) = rev cl" by (rule dropWhile_digits)
  with a show ?thesis by (simp add: trim_def dropWhile_digits)
qed

lemma nonDecimal_digits: "list_all isDigit t \<Longrightarrow> nonDecimal t = None"
proof (cases t)
  case Nil
  then show ?thesis by (simp add: nonDecimal_def)
next
  case (Cons z r)
  assume d: "list_all isDigit t"
  show ?thesis
  proof (cases r)
    case Nil
    with Cons show ?thesis by (simp add: nonDecimal_def)
  next
    case (Cons x ds)
    with d \<open>t = z # r\<close> have "isDigit x" by simp
    then have "x \<noteq> CHR ''x''" "x \<noteq> CHR ''X''" "x \<noteq> CHR ''o''" "x \<noteq> CHR ''O''"
      "x \<noteq> CHR ''b''" "x \<noteq> CHR ''B''"
      by (auto simp: isDigit_def)
    with Cons \<open>t = z # r\<close> show ?thesis by (simp add: nonDecimal_def)
  qed
qed

lemma unsignedDecimal_digits:
  assumes "list_all isDigit t" and "t \<noteq> []"
  shows "unsignedDecimal t = Some (decimalValue t, 0)"
proof -
  from assms(1) have tw: "takeWhile isDigit t = t" and dw: "dropWhile isDigit t = []"
    by (simp_all add: list_all_iff)
  show ?thesis
    unfolding unsignedDecimal_def Let_def tw dw using assms(2) by simp
qed

lemma Number_digits:
  assumes d: "list_all isDigit cl" and ne: "cl \<noteq> []"
  shows "Number cl = Finite False (decimalValue cl) 0"
proof -
  from ne obtain c r where cl: "cl = c # r" by (cases cl) auto
  with d have c: "isDigit c" by simp
  then have sg: "c \<noteq> CHR ''-''" "c \<noteq> CHR ''+''" "c \<noteq> CHR ''I''"
    by (auto simp: isDigit_def)
  have t: "trim cl = c # r" using d cl by (simp add: trim_digits)
  have nd: "nonDecimal (c # r) = None" using d cl nonDecimal_digits by simp
  have ud: "unsignedDecimal (c # r) = Some (decimalValue cl, 0)"
    using unsignedDecimal_digits [OF d ne] cl by simp
  have inf: "c # r \<noteq> ''Infinity''" using sg by simp
  show ?thesis
    unfolding Number_def Let_def t using nd ud sg inf by simp
qed

lemma declaredTooLarge_digits:
  assumes "list_all isDigit cl" and "cl \<noteq> []"
  shows "declaredTooLarge (Some cl) = (5 * 1024 * 1024 < decimalValue cl)"
  using assms by (auto simp: declaredTooLarge_def Number_digits exceedsLimit_def)

text \<open>The test of the header: a Content-Length of decimal digits above 5 MB ends the
  call with the size error, whatever reading the body would have given. The other
  notations that \<open>Number\<close> reads are compared by their value.\<close>

lemma declared_size_rejected:
  assumes "page_ok res" and "content_length res = Some cl" and "cl \<noteq> []"
    and "list_all isDigit cl" and "5 * 1024 * 1024 < decimalValue cl"
  shows "readPage (res\<lparr>page_text := b\<rparr>) = Inl SizeLimit"
  using assms by (simp add: readPage_def declaredTooLarge_digits)

lemma declared_size_notations:
  "declaredTooLarge (Some ''6291456'') \<and> declaredTooLarge (Some ''6e6'')
   \<and> declaredTooLarge (Some ''0x600000'') \<and> declaredTooLarge (Some ''+6291456'')
   \<and> declaredTooLarge (Some ''5242880.5'') \<and> declaredTooLarge (Some ''Infinity'')
   \<and> declaredTooLarge (Some ''5242880'') = False \<and> declaredTooLarge (Some ''abc'') = False
   \<and> declaredTooLarge (Some ''-6291456'') = False \<and> declaredTooLarge (Some '''') = False"
  by (simp add: declaredTooLarge_def exceedsLimit_def Number_def trim_def isSpace_def
        nonDecimal_def unsignedDecimal_def exponentPart_def isDigit_def decimalValue_def
        digitVal_def isHexDigit_def isOctalDigit_def isBinaryDigit_def radixValue_def
        digitOf_def Let_def)

lemma utf8Bytes_replicate: "length (utf8Bytes (replicate n c)) = n * length (utf8Char c)"
  by (induction n) (simp_all add: utf8Bytes_def)

text \<open>
  Claim C6, at a response without a Content-Length header whose body is the letter
  U+00E9 repeated 3,145,728 times: the body has 6 MB of UTF-8 bytes, the text has
  3,145,728 code units, and \<open>readPage\<close> returns the text: the second test compares
  the length of the decoded text, not the bytes read, with 5 MB.
\<close>

theorem size_cap_counts_code_units:
  "readPage \<lparr>page_ok = True, page_status = 200, content_length = None,
             page_text = Some (replicate 3145728 (CHR 0xE9)), page_url = ''''\<rparr>
     = Inr (replicate 3145728 (CHR 0xE9))
   \<and> length (utf8Bytes (replicate 3145728 (CHR 0xE9))) = 6 * 1024 * 1024"
  by (simp add: readPage_def declaredTooLarge_def utf8Bytes_replicate utf8Char_def)

lemma cacheHit_fresh:
  "pc key = Some (at, d) \<Longrightarrow> t - at < 600000 \<Longrightarrow> cacheHit pc True key t = Some d"
  by (simp add: cacheHit_def CACHE_TTL_MS_def)

lemma cacheHit_stale:
  "pc key = Some (at, d) \<Longrightarrow> 600000 \<le> t - at \<Longrightarrow> cacheHit pc True key t = None"
  by (simp add: cacheHit_def CACHE_TTL_MS_def)

lemma cacheHit_absent: "cacheHit (pc(key := None)) True key t = None"
  by (simp add: cacheHit_def)

lemma example_public: "\<not> isPrivateHostname (hostname exampleUrl)"
  unfolding exampleUrl_def by code_simp

lemma example_built:
  "buildResult exampleUrl exampleResponse exampleDom None
     = \<lparr>url = ''https://example.com/docs'', finalUrl = ''https://example.com/docs'',
        title = Some ''Docs'', description = None, publishedAt = None, author = None,
        wordCount = 3, headings = [], links = [], excerpt = ''new text here'',
        mainText = ''new text here'', relevant_passages = []\<rparr>"
proof -
  have "countWords ''new text here'' = 3" by code_simp
  then show ?thesis
    by (simp add: buildResult_def mainTextOf_def exampleDom_def exampleUrl_def
                  exampleResponse_def Let_def)
qed

text \<open>
  Claim C7: with caching on, past the scheme test and the address guard, a cache entry
  of age below 600,000 ms is returned as it is, the cache stays as it was and no
  request is sent. With an entry of age 600,000 ms or more the call runs as it does
  without the entry: it returns the same and sends the same requests, the first of
  them for robots.txt. If robots.txt disallows, the call throws with that one request
  sent; otherwise the page is requested, and when the response is read and analysed
  the call returns the result built from it and the cache holds that result with the
  current time under the key, in place of the old entry. When the page fetch, the
  reading or the analysis fails, the call throws that error and the cache is as before.
\<close>

theorem cache_ttl:
  assumes scheme: "protocol u = ''http:'' \<or> protocol u = ''https:''"
    and pub: "\<not> isPrivateHostname (hostname u)"
    and entry: "pc (href u) = Some (at, d)"
  shows "(now e - at < 600000 \<longrightarrow> execute e pc (Some u) q True = (Inr d, pc, []))
       \<and> (600000 \<le> now e - at \<longrightarrow>
            fst (execute e pc (Some u) q True)
              = fst (execute e (pc(href u := None)) (Some u) q True)
          \<and> snd (snd (execute e pc (Some u) q True))
              = snd (snd (execute e (pc(href u := None)) (Some u) q True))
          \<and> hd (snd (snd (execute e pc (Some u) q True))) = robotsUrl u
          \<and> snd (snd (execute e pc (Some u) q True)) \<noteq> []
          \<and> (\<forall>r. fst (execute e pc (Some u) q True) = Inr r \<longrightarrow>
                 fst (snd (execute e pc (Some u) q True)) = pc(href u \<mapsto> (now e, r))
               \<and> snd (snd (execute e pc (Some u) q True)) = [robotsUrl u, href u])
          \<and> (\<not> fetchRobotsAllowed u ''content-agent'' (robots_answer e) \<longrightarrow>
                 execute e pc (Some u) q True = (Inl RobotsDisallowed, pc, [robotsUrl u]))
          \<and> (fetchRobotsAllowed u ''content-agent'' (robots_answer e) \<longrightarrow>
                 snd (snd (execute e pc (Some u) q True)) = [robotsUrl u, href u]
               \<and> (\<forall>f. page_answer e = Rejected f \<longrightarrow>
                      execute e pc (Some u) q True
                        = (Inl (FetchError f), pc, [robotsUrl u, href u]))
               \<and> (\<forall>res err. page_answer e = Resolved res \<and> readPage res = Inl err \<longrightarrow>
                      execute e pc (Some u) q True = (Inl err, pc, [robotsUrl u, href u]))
               \<and> (\<forall>res html err. page_answer e = Resolved res \<and> readPage res = Inr html
                        \<and> dom_of e u html = Inl err \<longrightarrow>
                      execute e pc (Some u) q True = (Inl err, pc, [robotsUrl u, href u]))
               \<and> (\<forall>res html x. page_answer e = Resolved res \<and> readPage res = Inr html
                        \<and> dom_of e u html = Inr x \<longrightarrow>
                      execute e pc (Some u) q True
                        = (Inr (buildResult u res x q),
                           pc(href u \<mapsto> (now e, buildResult u res x q)),
                           [robotsUrl u, href u]))))"
proof (intro conjI impI allI)
  assume "now e - at < 600000"
  with entry have "cacheHit pc True (href u) (now e) = Some d" by (rule cacheHit_fresh)
  with scheme pub show "execute e pc (Some u) q True = (Inr d, pc, [])"
    by (auto simp: execute_def)
next
  assume "600000 \<le> now e - at"
  with entry have stale: "cacheHit pc True (href u) (now e) = None" by (rule cacheHit_stale)
  note absent = cacheHit_absent [of pc "href u" "now e"]
  show "fst (execute e pc (Some u) q True)
          = fst (execute e (pc(href u := None)) (Some u) q True)"
    using scheme pub stale absent
    by (auto simp: execute_def Let_def split: fetched.splits sum.splits)
  show "snd (snd (execute e pc (Some u) q True))
          = snd (snd (execute e (pc(href u := None)) (Some u) q True))"
    using scheme pub stale absent
    by (auto simp: execute_def Let_def split: fetched.splits sum.splits)
  show "hd (snd (snd (execute e pc (Some u) q True))) = robotsUrl u"
    using scheme pub stale
    by (auto simp: execute_def Let_def split: fetched.splits sum.splits)
  show "snd (snd (execute e pc (Some u) q True)) \<noteq> []"
    using scheme pub stale
    by (auto simp: execute_def Let_def split: fetched.splits sum.splits)
  show "fst (snd (execute e pc (Some u) q True)) = pc(href u \<mapsto> (now e, r))"
    if "fst (execute e pc (Some u) q True) = Inr r" for r
    using that scheme pub stale
    by (auto simp: execute_def Let_def split: fetched.splits sum.splits if_splits)
  show "snd (snd (execute e pc (Some u) q True)) = [robotsUrl u, href u]"
    if "fst (execute e pc (Some u) q True) = Inr r" for r
    using that scheme pub stale
    by (auto simp: execute_def Let_def split: fetched.splits sum.splits if_splits)
  show "execute e pc (Some u) q True = (Inl RobotsDisallowed, pc, [robotsUrl u])"
    if "\<not> fetchRobotsAllowed u ''content-agent'' (robots_answer e)"
    using that scheme pub stale by (auto simp: execute_def)
  show "snd (snd (execute e pc (Some u) q True)) = [robotsUrl u, href u]"
    if "fetchRobotsAllowed u ''content-agent'' (robots_answer e)"
    using that scheme pub stale
    by (auto simp: execute_def Let_def split: fetched.splits sum.splits)
  show "execute e pc (Some u) q True = (Inl (FetchError f), pc, [robotsUrl u, href u])"
    if "fetchRobotsAllowed u ''content-agent'' (robots_answer e)" "page_answer e = Rejected f"
    for f
    using that scheme pub stale by (auto simp: execute_def)
  show "execute e pc (Some u) q True = (Inl err, pc, [robotsUrl u, href u])"
    if "fetchRobotsAllowed u ''content-agent'' (robots_answer e)"
       "page_answer e = Resolved res \<and> readPage res = Inl err"
    for res err
    using that scheme pub stale by (auto simp: execute_def)
  show "execute e pc (Some u) q True = (Inl err, pc, [robotsUrl u, href u])"
    if "fetchRobotsAllowed u ''content-agent'' (robots_answer e)"
       "page_answer e = Resolved res \<and> readPage res = Inr html \<and> dom_of e u html = Inl err"
    for res html err
    using that scheme pub stale by (auto simp: execute_def)
  show "execute e pc (Some u) q True
          = (Inr (buildResult u res x q), pc(href u \<mapsto> (now e, buildResult u res x q)),
             [robotsUrl u, href u])"
    if "fetchRobotsAllowed u ''content-agent'' (robots_answer e)"
       "page_answer e = Resolved res \<and> readPage res = Inr html \<and> dom_of e u html = Inr x"
    for res html x
    using that scheme pub stale by (auto simp: execute_def Let_def)
qed

theorem cache_ttl_witness:
  "(protocol exampleUrl = ''http:'' \<or> protocol exampleUrl = ''https:'')
   \<and> \<not> isPrivateHostname (hostname exampleUrl)
   \<and> exampleCache (href exampleUrl) = Some (1000, examplePage)
   \<and> execute (exampleEnv 600999) exampleCache (Some exampleUrl) None True
      = (Inr examplePage, exampleCache, [])
   \<and> execute (exampleEnv 601000) exampleCache (Some exampleUrl) None True
      = (Inr (buildResult exampleUrl exampleResponse exampleDom None),
         exampleCache(href exampleUrl \<mapsto>
           (601000, buildResult exampleUrl exampleResponse exampleDom None)),
         [robotsUrl exampleUrl, href exampleUrl])
   \<and> mainText (buildResult exampleUrl exampleResponse exampleDom None) = ''new text here''
   \<and> mainText examplePage = ''old text''"
proof -
  have s: "protocol exampleUrl = ''http:'' \<or> protocol exampleUrl = ''https:''"
    by (simp add: exampleUrl_def)
  have en: "exampleCache (href exampleUrl) = Some (1000, examplePage)"
    by (simp add: exampleCache_def exampleUrl_def)
  have t1: "now (exampleEnv 600999) - 1000 < 600000" by (simp add: exampleEnv_def)
  have t2: "600000 \<le> now (exampleEnv 601000) - 1000" by (simp add: exampleEnv_def)
  have n2: "now (exampleEnv 601000) = 601000" by (simp add: exampleEnv_def)
  have ra: "fetchRobotsAllowed exampleUrl ''content-agent'' (robots_answer (exampleEnv 601000))"
    by (simp add: exampleEnv_def fetchRobotsAllowed_def robotsTry_def)
  have pa: "page_answer (exampleEnv 601000) = Resolved exampleResponse"
    by (simp add: exampleEnv_def exampleResponse_def)
  have rp: "readPage exampleResponse = Inr ''<p>new text here</p>''"
    by (simp add: readPage_def exampleResponse_def declaredTooLarge_def)
  have dm: "dom_of (exampleEnv 601000) exampleUrl ''<p>new text here</p>'' = Inr exampleDom"
    by (simp add: exampleEnv_def)
  have m1: "mainText (buildResult exampleUrl exampleResponse exampleDom None) = ''new text here''"
    by (simp add: example_built)
  have m2: "mainText examplePage = ''old text''" by (simp add: examplePage_def)
  note a = cache_ttl [of exampleUrl exampleCache 1000 examplePage "exampleEnv 600999" None,
                      OF s example_public en]
  note b = cache_ttl [of exampleUrl exampleCache 1000 examplePage "exampleEnv 601000" None,
                      OF s example_public en]
  from a t1 have c1: "execute (exampleEnv 600999) exampleCache (Some exampleUrl) None True
      = (Inr examplePage, exampleCache, [])" by blast
  from b t2 ra pa rp dm have c2: "execute (exampleEnv 601000) exampleCache (Some exampleUrl) None True
      = (Inr (buildResult exampleUrl exampleResponse exampleDom None),
         exampleCache(href exampleUrl \<mapsto>
           (now (exampleEnv 601000), buildResult exampleUrl exampleResponse exampleDom None)),
         [robotsUrl exampleUrl, href exampleUrl])" by blast
  from s example_public en c1 c2 m1 m2 show ?thesis by (simp add: n2)
qed

text \<open>
  Claim C10: whenever \<open>execute\<close> throws, at whatever stage, the cache is as before;
  it is also as before when caching is off. The cache changes only in a call that
  returns a result with caching on, and then only by the entry of that result under
  the key of the URL.
\<close>

theorem cache_written_last:
  assumes "execute e pc input q cache = (out, pc', reqs)"
  shows "(\<forall>err. out = Inl err \<longrightarrow> pc' = pc)
         \<and> (\<not> cache \<longrightarrow> pc' = pc)
         \<and> (pc' \<noteq> pc \<longrightarrow>
              (\<exists>u r. input = Some u \<and> out = Inr r \<and> cache \<and> pc' = pc(href u \<mapsto> (now e, r))))"
  using assms
  by (auto simp: execute_def Let_def split: option.splits if_splits fetched.splits sum.splits)

theorem cache_written_last_witness:
  "execute failingEnv exampleCache (Some exampleUrl) None True
     = (Inl (HttpStatus 404), exampleCache, [robotsUrl exampleUrl, href exampleUrl])"
proof -
  have h: "cacheHit exampleCache True (href exampleUrl) 700000 = None"
    by (simp add: cacheHit_def exampleCache_def exampleUrl_def CACHE_TTL_MS_def)
  have r: "fetchRobotsAllowed exampleUrl ''content-agent'' (Rejected NetworkError)"
    by (simp add: fetchRobotsAllowed_def robotsTry_def)
  have p: "protocol exampleUrl = ''https:''" by (simp add: exampleUrl_def)
  obtain out pc' reqs where
    run: "execute failingEnv exampleCache (Some exampleUrl) None True = (out, pc', reqs)"
    by (cases "execute failingEnv exampleCache (Some exampleUrl) None True") blast
  have o: "out = Inl (HttpStatus 404)" and q: "reqs = [robotsUrl exampleUrl, href exampleUrl]"
    using run h r p example_public
    by (auto simp: execute_def failingEnv_def readPage_def)
  from cache_written_last [OF run] o have "pc' = exampleCache" by blast
  with run o q show ?thesis by simp
qed

end
